theory Spec2Isabelle
  imports Main "HOL-Library.Sublist"
begin

section \<open>Kata pod template engine (\<^verbatim>\<open>src/kubernetes/templates/template_engine.py\<close>)\<close>

text \<open>
  Python \<^verbatim>\<open>str\<close> values are modelled as \<^typ>\<open>string\<close>; the texts are taken to be ASCII, so
  that one \<^typ>\<open>char\<close> is one character of the Python string. A \<^verbatim>\<open>dict\<close> is an association
  list in insertion order (the order \<^verbatim>\<open>items()\<close> iterates in); a Python dict has pairwise
  distinct keys, which is stated where a property needs it.
\<close>

subsection \<open>Text primitives of the Python library that the engine calls\<close>

text \<open>
  The class \<^verbatim>\<open>\w\<close> of the pattern \<^verbatim>\<open>\{\{(\w+)\}\}\<close>, on ASCII text: letters, digits and
  the underscore.
\<close>

definition is_word_char :: "char \<Rightarrow> bool" where
  "is_word_char c \<longleftrightarrow>
     c \<in> set ''abcdefghijklmnopqrstuvwxyzABCDEFGHIJKLMNOPQRSTUVWXYZ0123456789_''"

text \<open>
  One attempt of the regular expression at the start of \<open>s\<close>: two opening braces, the
  longest run of word characters (at least one), two closing braces. The greedy \<^verbatim>\<open>\w+\<close>
  cannot succeed by giving characters back, since what follows a shorter run is a word
  character and not a brace. The result is the captured group and the text after the
  match.
\<close>

definition match_token :: "string \<Rightarrow> (string \<times> string) option" where
  "match_token s =
     (if prefix ''{{'' s then
        (let body = drop 2 s;
             name = takeWhile is_word_char body;
             rest = dropWhile is_word_char body
         in if name \<noteq> [] \<and> prefix ''}}'' rest then Some (name, drop 2 rest) else None)
      else None)"

lemma match_token_shorter:
  "match_token s = Some (name, rest) \<Longrightarrow> length rest < length s"
proof -
  assume m: "match_token s = Some (name, rest)"
  have "length (dropWhile is_word_char (drop 2 s)) \<le> length (drop 2 s)"
    by (rule length_dropWhile_le)
  with m show ?thesis
    by (auto simp: match_token_def Let_def prefix_def split: if_splits)
qed

text \<open>
  \<^verbatim>\<open>re.findall(pattern, template)\<close>: the captured names of the non-overlapping matches,
  scanning from the left; after a match the scan goes on behind it, otherwise one
  character further.
\<close>

function findall :: "string \<Rightarrow> string list" where
  "findall [] = []"
| "findall (c # cs) =
     (case match_token (c # cs) of
        Some (name, rest) \<Rightarrow> name # findall rest
      | None \<Rightarrow> findall cs)"
  by pat_completeness auto
termination
  by (relation "measure length") (auto dest: match_token_shorter)

text \<open>
  \<^verbatim>\<open>s.replace(old, new)\<close>: every non-overlapping occurrence of \<open>old\<close>, found from the
  left, is replaced; the text of a replacement is not searched again by the same call.
  With an empty \<open>old\<close> Python inserts \<open>new\<close> before every character and at the end.
\<close>

function py_replace :: "string \<Rightarrow> string \<Rightarrow> string \<Rightarrow> string" where
  "py_replace [] old new = (if old = [] then new else [])"
| "py_replace (c # cs) old new =
     (if old = [] then new @ c # py_replace cs old new
      else if prefix old (c # cs) then new @ py_replace (drop (length old) (c # cs)) old new
      else c # py_replace cs old new)"
  by pat_completeness auto
termination
  by (relation "measure (\<lambda>(s, old, new). length s)") auto

subsection \<open>Errors\<close>

text \<open>
  The values a YAML document parses to (\<^verbatim>\<open>yaml.safe_load\<close>): \<^verbatim>\<open>None\<close>, booleans,
  integers, strings, lists and dicts; \<open>YOther\<close> stands for the remaining scalars
  (floats, dates, byte strings, sets), none of which is a \<^verbatim>\<open>dict\<close> or equal to a
  \<^verbatim>\<open>str\<close>.
\<close>

datatype yaml =
    YNone
  | YBool bool
  | YInt int
  | YStr string
  | YOther string
  | YSeq "yaml list"
  | YMap "(yaml \<times> yaml) list"

text \<open>The five messages \<^verbatim>\<open>validate_yaml\<close> puts into a \<^verbatim>\<open>ValidationError\<close>.\<close>

datatype validation_message =
    Invalid_YAML_syntax string       \<comment> \<open>\<^verbatim>\<open>Invalid YAML syntax: {e}\<close>\<close>
  | Must_be_dictionary               \<comment> \<open>\<^verbatim>\<open>YAML must be a dictionary/object\<close>\<close>
  | Missing_required_field string    \<comment> \<open>\<^verbatim>\<open>Missing required field: {field}\<close>\<close>
  | Expected_kind_Pod yaml           \<comment> \<open>\<^verbatim>\<open>Expected kind 'Pod', got '{parsed.get('kind')}'\<close>\<close>
  | RuntimeClassName_must_be_kata    \<comment> \<open>\<^verbatim>\<open>runtimeClassName must be 'kata'\<close>\<close>

datatype error =
    FileNotFoundError string
  | IsADirectoryError string
  | RenderingError "string set"      \<comment> \<open>\<^verbatim>\<open>Missing template variables: {missing}\<close>\<close>
  | ValidationError validation_message
  | YAMLError string
  | AttributeError

subsection \<open>\<^verbatim>\<open>TemplateVariables\<close>\<close>

record TemplateVariables =
  AGENT_ID :: string
  NAMESPACE :: string
  IMAGE :: string
  CPU_LIMIT :: string
  MEMORY_LIMIT :: string
  ENV_VARS :: string
  VOLUME_MOUNTS :: string
  VOLUMES :: string

definition to_dict :: "TemplateVariables \<Rightarrow> (string \<times> string) list" where
  "to_dict v =
     [(''AGENT_ID'', AGENT_ID v),
      (''NAMESPACE'', NAMESPACE v),
      (''IMAGE'', IMAGE v),
      (''CPU_LIMIT'', CPU_LIMIT v),
      (''MEMORY_LIMIT'', MEMORY_LIMIT v),
      (''ENV_VARS'', ENV_VARS v),
      (''VOLUME_MOUNTS'', VOLUME_MOUNTS v),
      (''VOLUMES'', VOLUMES v)]"

text \<open>
  \<^verbatim>\<open>TemplateVariables(AGENT_ID=agent_id)\<close>: the dataclass with every other field at its
  default.
\<close>

definition default_variables :: "string \<Rightarrow> TemplateVariables" where
  "default_variables agent_id =
     \<lparr>AGENT_ID = agent_id, NAMESPACE = ''default'', IMAGE = ''godel/agent:latest'',
      CPU_LIMIT = ''500m'', MEMORY_LIMIT = ''512Mi'', ENV_VARS = [], VOLUME_MOUNTS = [],
      VOLUMES = []\<rparr>"

subsection \<open>\<^verbatim>\<open>KataPodTemplateEngine.render\<close>\<close>

text \<open>
  The substitution loop of \<^verbatim>\<open>render\<close>: one \<^verbatim>\<open>replace\<close> per item of \<^verbatim>\<open>var_dict\<close>, in
  iteration order, each on the result of the one before. The values are \<^verbatim>\<open>str\<close>, so
  \<^verbatim>\<open>str(value)\<close> is the value.
\<close>

definition placeholder :: "string \<Rightarrow> string" where
  "placeholder key = ''{{'' @ key @ ''}}''"

fun substitute :: "string \<Rightarrow> (string \<times> string) list \<Rightarrow> string" where
  "substitute result [] = result"
| "substitute result ((key, value) # items) =
     substitute (py_replace result (placeholder key) value) items"

text \<open>
  The body of \<^verbatim>\<open>render\<close> once the template text and \<^verbatim>\<open>var_dict\<close> are at hand: the check
  for missing variables, then the substitution.
\<close>

definition render_template :: "string \<Rightarrow> (string \<times> string) list \<Rightarrow> error + string" where
  "render_template template var_dict =
     (let matches = set (findall template);
          missing = matches - set (map fst var_dict)
      in if missing \<noteq> {} then Inl (RenderingError missing)
         else Inr (substitute template var_dict))"

subsection \<open>The file system and the engine's state\<close>

text \<open>
  The file system, as far as \<^verbatim>\<open>pathlib\<close> is used: a path names a regular file with its
  text, a directory, or nothing. \<^verbatim>\<open>read_text\<close> and \<^verbatim>\<open>write_text\<close> raise on a directory;
  \<^verbatim>\<open>write_text\<close> creates the file or replaces its whole content. Other failures of
  the operating system (permissions, a missing parent directory, a full disk) are not
  part of the model.
\<close>

datatype node = File string | Dir

type_synonym filesystem = "string \<rightharpoonup> node"

definition path_exists :: "filesystem \<Rightarrow> string \<Rightarrow> bool" where
  "path_exists fs p \<longleftrightarrow> fs p \<noteq> None"

definition read_text :: "filesystem \<Rightarrow> string \<Rightarrow> error + string" where
  "read_text fs p =
     (case fs p of
        None \<Rightarrow> Inl (FileNotFoundError p)
      | Some Dir \<Rightarrow> Inl (IsADirectoryError p)
      | Some (File content) \<Rightarrow> Inr content)"

definition write_text :: "filesystem \<Rightarrow> string \<Rightarrow> string \<Rightarrow> error + filesystem" where
  "write_text fs p content =
     (case fs p of
        Some Dir \<Rightarrow> Inl (IsADirectoryError p)
      | _ \<Rightarrow> Inr (fs(p \<mapsto> File content)))"

text \<open>
  The attributes of a \<^verbatim>\<open>KataPodTemplateEngine\<close>; \<open>template_content\<close> is the attribute
  \<^verbatim>\<open>_template_content\<close>, \<open>None\<close> until a load has stored a text. A method returns
  its result or the exception it raises together with the engine after the call, since
  an assignment made before a \<^verbatim>\<open>raise\<close> stays. \<open>load_template\<close> is the method
  \<^verbatim>\<open>_load_template\<close>.
\<close>

record engine =
  template_path :: string
  template_content :: "string option"

definition load_template :: "filesystem \<Rightarrow> engine \<Rightarrow> (error + string) \<times> engine" where
  "load_template fs self =
     (if \<not> path_exists fs (template_path self)
      then (Inl (FileNotFoundError (template_path self)), self)
      else (case read_text fs (template_path self) of
              Inl err \<Rightarrow> (Inl err, self)
            | Inr content \<Rightarrow> (Inr content, self\<lparr>template_content := Some content\<rparr>)))"

text \<open>
  The first statement of \<^verbatim>\<open>render\<close>,
  \<^verbatim>\<open>template = self._template_content or self._load_template()\<close>: the left operand is
  taken when it is truthy; \<^verbatim>\<open>None\<close> and the empty string are falsy, and then the
  template is loaded.
\<close>

definition obtain_template :: "filesystem \<Rightarrow> engine \<Rightarrow> (error + string) \<times> engine" where
  "obtain_template fs self =
     (case template_content self of
        None \<Rightarrow> load_template fs self
      | Some content \<Rightarrow> if content \<noteq> [] then (Inr content, self) else load_template fs self)"

definition render :: "filesystem \<Rightarrow> engine \<Rightarrow> TemplateVariables \<Rightarrow> (error + string) \<times> engine" where
  "render fs self variables =
     (case obtain_template fs self of
        (Inl err, self') \<Rightarrow> (Inl err, self')
      | (Inr template, self') \<Rightarrow> (render_template template (to_dict variables), self'))"

subsection \<open>\<^verbatim>\<open>KataPodTemplateEngine.validate_yaml\<close>\<close>

definition dict_get :: "(yaml \<times> yaml) list \<Rightarrow> yaml \<Rightarrow> yaml" where
  "dict_get d k = (case map_of d k of None \<Rightarrow> YNone | Some v \<Rightarrow> v)"

definition dict_get_default :: "(yaml \<times> yaml) list \<Rightarrow> yaml \<Rightarrow> yaml \<Rightarrow> yaml" where
  "dict_get_default d k dflt = (case map_of d k of None \<Rightarrow> dflt | Some v \<Rightarrow> v)"

definition required_fields :: "string list" where
  "required_fields = [''apiVersion'', ''kind'', ''metadata'', ''spec'']"

text \<open>The loop over \<^verbatim>\<open>required_fields\<close>: the first field that is not a key, if any.\<close>

fun first_missing :: "(yaml \<times> yaml) list \<Rightarrow> string list \<Rightarrow> string option" where
  "first_missing parsed [] = None"
| "first_missing parsed (field # others) =
     (if map_of parsed (YStr field) = None then Some field
      else first_missing parsed others)"

text \<open>
  The checks on the parsed document. Only a dict has a \<^verbatim>\<open>get\<close> method: for any other
  value of \<^verbatim>\<open>spec\<close> the call \<^verbatim>\<open>spec.get("runtimeClassName")\<close> raises \<^verbatim>\<open>AttributeError\<close>.
\<close>

definition validate_parsed :: "yaml \<Rightarrow> error + yaml" where
  "validate_parsed parsed =
     (case parsed of
        YMap d \<Rightarrow>
          (case first_missing d required_fields of
             Some field \<Rightarrow> Inl (ValidationError (Missing_required_field field))
           | None \<Rightarrow>
               if dict_get d (YStr ''kind'') \<noteq> YStr ''Pod''
               then Inl (ValidationError (Expected_kind_Pod (dict_get d (YStr ''kind''))))
               else (case dict_get_default d (YStr ''spec'') (YMap []) of
                       YMap spec \<Rightarrow>
                         if dict_get spec (YStr ''runtimeClassName'') \<noteq> YStr ''kata''
                         then Inl (ValidationError RuntimeClassName_must_be_kata)
                         else Inr parsed
                     | _ \<Rightarrow> Inl AttributeError))
      | _ \<Rightarrow> Inl (ValidationError Must_be_dictionary))"

text \<open>
  \<^verbatim>\<open>except yaml.YAMLError as e\<close>: a \<^verbatim>\<open>YAMLError\<close> becomes a \<^verbatim>\<open>ValidationError\<close> with the
  parser's diagnostic, any other exception of the parser passes through.
\<close>

fun except_YAMLError :: "error \<Rightarrow> error" where
  "except_YAMLError (YAMLError e) = ValidationError (Invalid_YAML_syntax e)"
| "except_YAMLError err = err"

text \<open>
  The parser \<^verbatim>\<open>yaml.safe_load\<close> is a library outside the repository; it is the
  parameter \<open>safe_load\<close>.
\<close>

definition validate_yaml :: "(string \<Rightarrow> error + yaml) \<Rightarrow> string \<Rightarrow> error + yaml" where
  "validate_yaml safe_load yaml_content =
     (case safe_load yaml_content of
        Inl err \<Rightarrow> Inl (except_YAMLError err)
      | Inr parsed \<Rightarrow> validate_parsed parsed)"

definition render_and_validate ::
  "(string \<Rightarrow> error + yaml) \<Rightarrow> filesystem \<Rightarrow> engine \<Rightarrow> TemplateVariables
     \<Rightarrow> (error + yaml) \<times> engine" where
  "render_and_validate safe_load fs self variables =
     (case render fs self variables of
        (Inl err, self') \<Rightarrow> (Inl err, self')
      | (Inr rendered, self') \<Rightarrow> (validate_yaml safe_load rendered, self'))"

definition save_rendered ::
  "(string \<Rightarrow> error + yaml) \<Rightarrow> filesystem \<Rightarrow> engine \<Rightarrow> TemplateVariables \<Rightarrow> string
     \<Rightarrow> (error + string) \<times> engine \<times> filesystem" where
  "save_rendered safe_load fs self variables output_path =
     (case render fs self variables of
        (Inl err, self') \<Rightarrow> (Inl err, self', fs)
      | (Inr rendered, self') \<Rightarrow>
          (case validate_yaml safe_load rendered of
             Inl err \<Rightarrow> (Inl err, self', fs)
           | Inr parsed \<Rightarrow>
               (case write_text fs output_path rendered of
                  Inl err \<Rightarrow> (Inl err, self', fs)
                | Inr fs' \<Rightarrow> (Inr output_path, self', fs'))))"

subsection \<open>The formatting helpers\<close>

text \<open>\<^verbatim>\<open>sep.join(lines)\<close>.\<close>

fun join :: "string \<Rightarrow> string list \<Rightarrow> string" where
  "join sep [] = []"
| "join sep [x] = x"
| "join sep (x # y # ys) = x @ sep @ join sep (y # ys)"

text \<open>
  Each helper's loop appends to \<^verbatim>\<open>lines\<close>; the second argument is the list so far.
\<close>

fun env_var_lines :: "(string \<times> string) list \<Rightarrow> string list \<Rightarrow> string list" where
  "env_var_lines [] lines = lines"
| \<open>env_var_lines ((key, value) # items) lines =
     env_var_lines items
       (lines @ [''''] @ [''    - name: '' @ key] @ [''      value: "'' @ value @ ''"''])\<close>

definition format_env_vars :: "(string \<times> string) list \<Rightarrow> string" where
  "format_env_vars env_dict =
     (if env_dict = [] then '' []'' else join ''\<newline>'' (env_var_lines env_dict []))"

fun volume_mount_lines :: "(string \<times> string) list \<Rightarrow> string list \<Rightarrow> string list" where
  "volume_mount_lines [] lines = lines"
| "volume_mount_lines ((name, mount_path) # items) lines =
     volume_mount_lines items
       (lines @ [''''] @ [''    - name: '' @ name] @ [''      mountPath: '' @ mount_path])"

definition format_volume_mounts :: "(string \<times> string) list \<Rightarrow> string" where
  "format_volume_mounts mounts =
     (if mounts = [] then '' []'' else join ''\<newline>'' (volume_mount_lines mounts []))"

text \<open>
  A property of a volume is a dict of one level (\<^verbatim>\<open>isinstance(value, dict)\<close>) or
  anything else; keys and values enter the text through their \<^verbatim>\<open>str()\<close> form, which
  is what the strings here hold.
\<close>

datatype volume_value = Scalar string | Nested "(string \<times> string) list"

fun nested_lines :: "(string \<times> string) list \<Rightarrow> string list \<Rightarrow> string list" where
  "nested_lines [] lines = lines"
| "nested_lines ((k, v) # items) lines =
     nested_lines items (lines @ [''      '' @ k @ '': '' @ v])"

fun config_lines :: "(string \<times> volume_value) list \<Rightarrow> string list \<Rightarrow> string list" where
  "config_lines [] lines = lines"
| "config_lines ((key, value) # items) lines =
     config_lines items
       (case value of
          Nested d \<Rightarrow> nested_lines d (lines @ [''    '' @ key @ '':''])
        | Scalar v \<Rightarrow> lines @ [''    '' @ key @ '': '' @ v])"

fun volume_lines ::
  "(string \<times> (string \<times> volume_value) list) list \<Rightarrow> string list \<Rightarrow> string list" where
  "volume_lines [] lines = lines"
| "volume_lines ((name, config) # items) lines =
     volume_lines items (config_lines config (lines @ [''''] @ [''  - name: '' @ name]))"

definition format_volumes :: "(string \<times> (string \<times> volume_value) list) list \<Rightarrow> string" where
  "format_volumes volumes =
     (if volumes = [] then '' []'' else join ''\<newline>'' (volume_lines volumes []))"

subsection \<open>Templates as literal text and tokens\<close>

text \<open>
  A way to describe template texts, used to state properties of the substitution: a
  template put together from pieces of literal text and placeholder tokens. It is well
  formed when no literal piece has an opening brace and every token name is a non-empty
  run of word characters, so that every opening brace of the text belongs to a token.
\<close>

datatype segment = Literal string | Token string

fun segment_text :: "segment \<Rightarrow> string" where
  "segment_text (Literal s) = s"
| "segment_text (Token name) = placeholder name"

definition template_of :: "segment list \<Rightarrow> string" where
  "template_of segs = concat (map segment_text segs)"

definition no_open_brace :: "string \<Rightarrow> bool" where
  "no_open_brace s \<longleftrightarrow> CHR ''{'' \<notin> set s"

definition word_name :: "string \<Rightarrow> bool" where
  "word_name s \<longleftrightarrow> list_all is_word_char s"

fun well_formed_segment :: "segment \<Rightarrow> bool" where
  "well_formed_segment (Literal s) = no_open_brace s"
| "well_formed_segment (Token name) = (name \<noteq> [] \<and> word_name name)"

definition well_formed :: "segment list \<Rightarrow> bool" where
  "well_formed segs = list_all well_formed_segment segs"

fun token_names :: "segment list \<Rightarrow> string list" where
  "token_names [] = []"
| "token_names (Literal s # segs) = token_names segs"
| "token_names (Token name # segs) = name # token_names segs"

text \<open>
  A variable mapping is plain when its keys are runs of word characters and no value has
  an opening brace.
\<close>

definition plain_item :: "string \<times> string \<Rightarrow> bool" where
  "plain_item item \<longleftrightarrow> word_name (fst item) \<and> no_open_brace (snd item)"

definition plain_dict :: "(string \<times> string) list \<Rightarrow> bool" where
  "plain_dict d = list_all plain_item d"

text \<open>
  The text a template should become: literal text as it is, a token replaced by the value
  of its name in the mapping (and left alone when the mapping has no such key).
\<close>

fun fill_segment :: "(string \<times> string) list \<Rightarrow> segment \<Rightarrow> string" where
  "fill_segment d (Literal s) = s"
| "fill_segment d (Token name) =
     (case map_of d name of Some v \<Rightarrow> v | None \<Rightarrow> placeholder name)"

definition filled :: "(string \<times> string) list \<Rightarrow> segment list \<Rightarrow> string" where
  "filled d segs = concat (map (fill_segment d) segs)"

text \<open>What one \<^verbatim>\<open>replace\<close> does to a piece: a token of the key becomes the value.\<close>

fun replace_token :: "string \<Rightarrow> string \<Rightarrow> segment \<Rightarrow> segment" where
  "replace_token key v (Literal s) = Literal s"
| "replace_token key v (Token name) = (if name = key then Literal v else Token name)"

text \<open>
  The lines of one property of a volume in the output of \<^verbatim>\<open>format_volumes\<close>: one line
  for a scalar, a head line and one line per item for a nested dict.
\<close>

fun property_lines :: "string \<times> volume_value \<Rightarrow> string list" where
  "property_lines (key, Scalar v) = [''    '' @ key @ '': '' @ v]"
| "property_lines (key, Nested d) =
     (''    '' @ key @ '':'') # map (\<lambda>(k, v). ''      '' @ k @ '': '' @ v) d"

subsection \<open>Example data\<close>

text \<open>
  A small template with each of the eight tokens once, a pod manifest as a template and
  rendered for \<^verbatim>\<open>agent-001\<close>, a parser that knows the rendered manifest and one more
  text, and a file system with a file at the destination; they serve as concrete inputs
  below.
\<close>

definition example_segments :: "segment list" where
  "example_segments =
     [Literal ''name: '', Token ''AGENT_ID'',
      Literal ''\<newline>namespace: '', Token ''NAMESPACE'',
      Literal ''\<newline>image: '', Token ''IMAGE'',
      Literal ''\<newline>cpu: '', Token ''CPU_LIMIT'',
      Literal ''\<newline>memory: '', Token ''MEMORY_LIMIT'',
      Literal ''\<newline>env:'', Token ''ENV_VARS'',
      Literal ''\<newline>volumeMounts:'', Token ''VOLUME_MOUNTS'',
      Literal ''\<newline>volumes:'', Token ''VOLUMES'']"

definition example_variables :: TemplateVariables where
  "example_variables =
     (default_variables ''agent-001'')
       \<lparr>ENV_VARS := '' []'', VOLUME_MOUNTS := '' []'', VOLUMES := '' []''\<rparr>"

definition example_pod :: yaml where
  "example_pod =
     YMap [(YStr ''apiVersion'', YStr ''v1''), (YStr ''kind'', YStr ''Pod''),
           (YStr ''metadata'', YMap [(YStr ''name'', YStr ''agent-001'')]),
           (YStr ''spec'', YMap [(YStr ''runtimeClassName'', YStr ''kata'')])]"

definition pod_template :: string where
  "pod_template =
     ''apiVersion: v1\<newline>kind: Pod\<newline>metadata:\<newline>  name: {{AGENT_ID}}\<newline>spec:\<newline>  runtimeClassName: kata''"

definition rendered_pod :: string where
  "rendered_pod =
     ''apiVersion: v1\<newline>kind: Pod\<newline>metadata:\<newline>  name: agent-001\<newline>spec:\<newline>  runtimeClassName: kata''"

definition example_safe_load :: "string \<Rightarrow> error + yaml" where
  "example_safe_load text =
     (if text = rendered_pod then Inr example_pod
      else if text = ''kind: Service'' then Inr (YMap [(YStr ''kind'', YStr ''Service'')])
      else Inl (YAMLError ''could not find expected key''))"

definition example_files :: filesystem where
  "example_files = [''out.yaml'' \<mapsto> File ''old content'']"

definition engine_with :: "string \<Rightarrow> engine" where
  "engine_with template = \<lparr>template_path = ''kata-pod.yaml'', template_content = Some template\<rparr>"

section \<open>Properties\<close>

subsection \<open>The completeness check of \<^verbatim>\<open>render\<close>\<close>

text \<open>
  Claim C1. For a template with placeholder names \<open>P\<close> (the set of the names
  \<^verbatim>\<open>findall\<close> returns) and a variable mapping with keys \<open>K\<close>, the rendering succeeds
  exactly when \<open>P \<subseteq> K\<close>; when it fails, the error is the \<^verbatim>\<open>RenderingError\<close> that carries
  exactly \<open>P - K\<close>. Keys of the mapping that the template does not mention play no part
  in the condition.
\<close>

theorem render_template_complete:
  "((\<exists>text. render_template template var_dict = Inr text) \<longleftrightarrow>
      set (findall template) \<subseteq> set (map fst var_dict)) \<and>
   (\<not> set (findall template) \<subseteq> set (map fst var_dict) \<longrightarrow>
      render_template template var_dict =
        Inl (RenderingError (set (findall template) - set (map fst var_dict))))"
  by (auto simp: render_template_def Let_def)

theorem render_template_complete_witness:
  "\<not> set (findall ''{{AGENT_ID}} in {{NAMESPACE}}'')
       \<subseteq> set (map fst [(''AGENT_ID'', ''agent-001''), (''UNUSED'', ''x'')]) \<and>
   render_template ''{{AGENT_ID}} in {{NAMESPACE}}''
       [(''AGENT_ID'', ''agent-001''), (''UNUSED'', ''x'')] =
     Inl (RenderingError {''NAMESPACE''})"
proof -
  let ?t = "''{{AGENT_ID}} in {{NAMESPACE}}''"
  let ?d = "[(''AGENT_ID'', ''agent-001''), (''UNUSED'', ''x'')]"
  have names: "findall ?t = [''AGENT_ID'', ''NAMESPACE'']"
    by code_simp
  have missing: "set (findall ?t) - set (map fst ?d) = {''NAMESPACE''}"
    unfolding names by auto
  have "\<not> set (findall ?t) \<subseteq> set (map fst ?d)"
    unfolding names by simp
  with render_template_complete [of ?t ?d] missing show ?thesis
    by (simp del: findall.simps)
qed

text \<open>
  \<^verbatim>\<open>render\<close> itself is this check on the template text it obtains and on the eight
  keys of \<^verbatim>\<open>to_dict\<close>.
\<close>

lemma render_obtained:
  "obtain_template fs self = (Inr template, self') \<Longrightarrow>
     render fs self variables = (render_template template (to_dict variables), self')"
  by (simp add: render_def)

lemma keys_to_dict:
  "map fst (to_dict variables) =
     [''AGENT_ID'', ''NAMESPACE'', ''IMAGE'', ''CPU_LIMIT'', ''MEMORY_LIMIT'', ''ENV_VARS'',
      ''VOLUME_MOUNTS'', ''VOLUMES'']"
  by (simp add: to_dict_def)

subsection \<open>The template cache\<close>

lemma obtain_template_cached:
  "template_content self = Some content \<Longrightarrow> content \<noteq> [] \<Longrightarrow>
     obtain_template fs self = (Inr content, self)"
  by (simp add: obtain_template_def)

text \<open>
  With a non-empty cached text, \<^verbatim>\<open>render\<close> does not look at the file system at all.
\<close>

lemma render_cached_ignores_files:
  "template_content self = Some content \<Longrightarrow> content \<noteq> [] \<Longrightarrow>
     render fs self variables = render fs' self variables"
  by (simp add: render_def obtain_template_cached)

text \<open>
  Claim C10. When the cache of the engine holds a non-empty text, the engine after a call
  of \<^verbatim>\<open>render\<close> is the engine before it, whether the call returns the rendered text or
  raises the \<^verbatim>\<open>RenderingError\<close>; in particular the cache is the same.
\<close>

theorem render_keeps_cache:
  "template_content self = Some content \<Longrightarrow> content \<noteq> [] \<Longrightarrow>
     snd (render fs self variables) = self \<and>
     template_content (snd (render fs self variables)) = template_content self"
  by (simp add: render_def obtain_template_cached)

theorem render_keeps_cache_witness:
  "template_content \<lparr>template_path = ''kata-pod.yaml'', template_content = Some ''kind: {{K}}''\<rparr>
     = Some ''kind: {{K}}'' \<and>
   ''kind: {{K}}'' \<noteq> [] \<and>
   snd (render [''kata-pod.yaml'' \<mapsto> File ''changed on disk'']
          \<lparr>template_path = ''kata-pod.yaml'', template_content = Some ''kind: {{K}}''\<rparr>
          \<lparr>AGENT_ID = ''agent-001'', NAMESPACE = ''default'', IMAGE = ''godel/agent:latest'',
           CPU_LIMIT = ''500m'', MEMORY_LIMIT = ''512Mi'', ENV_VARS = [], VOLUME_MOUNTS = [],
           VOLUMES = []\<rparr>)
     = \<lparr>template_path = ''kata-pod.yaml'', template_content = Some ''kind: {{K}}''\<rparr>"
  using render_keeps_cache
    [of "\<lparr>template_path = ''kata-pod.yaml'', template_content = Some ''kind: {{K}}''\<rparr>"
        "''kind: {{K}}''" "[''kata-pod.yaml'' \<mapsto> File ''changed on disk'']"
        "\<lparr>AGENT_ID = ''agent-001'', NAMESPACE = ''default'', IMAGE = ''godel/agent:latest'',
           CPU_LIMIT = ''500m'', MEMORY_LIMIT = ''512Mi'', ENV_VARS = [], VOLUME_MOUNTS = [],
           VOLUMES = []\<rparr>"]
  by simp

lemma obtain_template_empty_cache:
  "template_content self = Some [] \<Longrightarrow> obtain_template fs self = load_template fs self"
  by (simp add: obtain_template_def)

text \<open>
  Claim C4. The claim asks that a cache filled by an earlier load is used by every later
  \<^verbatim>\<open>render\<close>, for any cached text, the empty one included. The code tests the cache
  with \<^verbatim>\<open>or\<close>, so an empty cached text counts as no cache: the engine below has loaded
  an empty template before, the file has a text now, and \<^verbatim>\<open>render\<close> reads the file
  again and replaces the cache.
\<close>

theorem render_reloads_empty_cache:
  "render [''kata-pod.yaml'' \<mapsto> File ''name: {{AGENT_ID}}'']
     \<lparr>template_path = ''kata-pod.yaml'', template_content = Some []\<rparr>
     \<lparr>AGENT_ID = ''agent-001'', NAMESPACE = ''default'', IMAGE = ''godel/agent:latest'',
      CPU_LIMIT = ''500m'', MEMORY_LIMIT = ''512Mi'', ENV_VARS = [], VOLUME_MOUNTS = [],
      VOLUMES = []\<rparr>
   = (Inr ''name: agent-001'',
      \<lparr>template_path = ''kata-pod.yaml'', template_content = Some ''name: {{AGENT_ID}}''\<rparr>)"
proof -
  have "render_template ''name: {{AGENT_ID}}''
          (to_dict \<lparr>AGENT_ID = ''agent-001'', NAMESPACE = ''default'',
             IMAGE = ''godel/agent:latest'', CPU_LIMIT = ''500m'', MEMORY_LIMIT = ''512Mi'',
             ENV_VARS = [], VOLUME_MOUNTS = [], VOLUMES = []\<rparr>)
        = Inr ''name: agent-001''"
    by code_simp
  then show ?thesis
    by (simp add: render_def obtain_template_def load_template_def path_exists_def
        read_text_def)
qed

subsection \<open>\<^verbatim>\<open>validate_yaml\<close>: the order of the gates\<close>

text \<open>
  Claim C7. When the parser rejects the text with a \<^verbatim>\<open>YAMLError\<close>, \<^verbatim>\<open>validate_yaml\<close>
  raises the \<^verbatim>\<open>ValidationError\<close> for invalid syntax with the parser's diagnostic; the
  result is fixed by that alone, so no later check has a say.
\<close>

theorem validate_yaml_syntax_first:
  "safe_load yaml_content = Inl (YAMLError e) \<Longrightarrow>
     validate_yaml safe_load yaml_content = Inl (ValidationError (Invalid_YAML_syntax e))"
  by (simp add: validate_yaml_def)

theorem validate_yaml_syntax_first_witness:
  "(\<lambda>text. if text = ''kind: [Pod'' then Inl (YAMLError ''expected , or ]'') else Inr YNone)
     ''kind: [Pod'' = Inl (YAMLError ''expected , or ]'') \<and>
   validate_yaml
     (\<lambda>text. if text = ''kind: [Pod'' then Inl (YAMLError ''expected , or ]'') else Inr YNone)
     ''kind: [Pod'' = Inl (ValidationError (Invalid_YAML_syntax ''expected , or ]''))"
  using validate_yaml_syntax_first
    [of "\<lambda>text. if text = ''kind: [Pod'' then Inl (YAMLError ''expected , or ]'') else Inr YNone"
        "''kind: [Pod''" "''expected , or ]''"]
  by simp

text \<open>The gates behind the parser, each in the order of the source.\<close>

lemma validate_yaml_not_a_dict:
  "safe_load yaml_content = Inr parsed \<Longrightarrow> \<forall>d. parsed \<noteq> YMap d \<Longrightarrow>
     validate_yaml safe_load yaml_content = Inl (ValidationError Must_be_dictionary)"
  by (cases parsed) (simp_all add: validate_yaml_def validate_parsed_def)

lemma validate_yaml_missing_field:
  "safe_load yaml_content = Inr (YMap d) \<Longrightarrow> first_missing d required_fields = Some field \<Longrightarrow>
     validate_yaml safe_load yaml_content = Inl (ValidationError (Missing_required_field field))"
  by (simp add: validate_yaml_def validate_parsed_def)

lemma validate_yaml_wrong_kind:
  "safe_load yaml_content = Inr (YMap d) \<Longrightarrow> first_missing d required_fields = None \<Longrightarrow>
   dict_get d (YStr ''kind'') \<noteq> YStr ''Pod'' \<Longrightarrow>
     validate_yaml safe_load yaml_content =
       Inl (ValidationError (Expected_kind_Pod (dict_get d (YStr ''kind''))))"
  by (simp add: validate_yaml_def validate_parsed_def)

lemma first_missing_None:
  "first_missing d names = None \<longleftrightarrow> (\<forall>f \<in> set names. map_of d (YStr f) \<noteq> None)"
  by (induction names) auto

lemma validate_yaml_runtime_class:
  "safe_load yaml_content = Inr (YMap d) \<Longrightarrow> first_missing d required_fields = None \<Longrightarrow>
   dict_get d (YStr ''kind'') = YStr ''Pod'' \<Longrightarrow> map_of d (YStr ''spec'') = Some (YMap spec) \<Longrightarrow>
   dict_get spec (YStr ''runtimeClassName'') \<noteq> YStr ''kata'' \<Longrightarrow>
     validate_yaml safe_load yaml_content = Inl (ValidationError RuntimeClassName_must_be_kata)"
  by (simp add: validate_yaml_def validate_parsed_def dict_get_default_def)

lemma validate_yaml_spec_not_a_dict:
  "safe_load yaml_content = Inr (YMap d) \<Longrightarrow> first_missing d required_fields = None \<Longrightarrow>
   dict_get d (YStr ''kind'') = YStr ''Pod'' \<Longrightarrow> map_of d (YStr ''spec'') = Some v \<Longrightarrow>
   \<forall>spec. v \<noteq> YMap spec \<Longrightarrow>
     validate_yaml safe_load yaml_content = Inl AttributeError"
  by (cases v) (simp_all add: validate_yaml_def validate_parsed_def dict_get_default_def)

text \<open>
  Claim C3. The claim asks for the \<^verbatim>\<open>ValidationError\<close> about \<^verbatim>\<open>runtimeClassName\<close> also
  when the value of \<^verbatim>\<open>spec\<close> is not a mapping. For the document
  \<^verbatim>\<open>{apiVersion: v1, kind: Pod, metadata: {}, spec: runc}\<close> the code calls \<^verbatim>\<open>get\<close> on
  the string and leaves with an \<^verbatim>\<open>AttributeError\<close>.
\<close>

theorem validate_yaml_spec_string:
  "validate_yaml
     (\<lambda>text. Inr (YMap [(YStr ''apiVersion'', YStr ''v1''), (YStr ''kind'', YStr ''Pod''),
                        (YStr ''metadata'', YMap []), (YStr ''spec'', YStr ''runc'')]))
     ''apiVersion: v1\<newline>kind: Pod\<newline>metadata: {}\<newline>spec: runc''
   = Inl AttributeError"
  by (simp add: validate_yaml_def validate_parsed_def required_fields_def dict_get_def
      dict_get_default_def)

text \<open>
  Claim C9. A document that parses to a mapping with the four required keys, with
  \<^verbatim>\<open>kind\<close> equal to \<^verbatim>\<open>Pod\<close> and \<^verbatim>\<open>spec\<close> a mapping whose \<^verbatim>\<open>runtimeClassName\<close> is
  \<^verbatim>\<open>kata\<close>, is accepted, and the value returned is the parsed mapping itself, whatever
  else it holds.
\<close>

theorem validate_yaml_accepts:
  assumes "safe_load yaml_content = Inr (YMap d)"
    and "map_of d (YStr ''apiVersion'') = Some a"
    and "map_of d (YStr ''kind'') = Some (YStr ''Pod'')"
    and "map_of d (YStr ''metadata'') = Some m"
    and "map_of d (YStr ''spec'') = Some (YMap spec)"
    and "map_of spec (YStr ''runtimeClassName'') = Some (YStr ''kata'')"
  shows "validate_yaml safe_load yaml_content = Inr (YMap d)"
proof -
  have "first_missing d required_fields = None"
    using assms by (simp add: first_missing_None required_fields_def)
  then show ?thesis
    using assms
    by (simp add: validate_yaml_def validate_parsed_def dict_get_def dict_get_default_def)
qed

theorem validate_yaml_accepts_witness:
  "validate_yaml
     (\<lambda>text. Inr (YMap [(YStr ''extra'', YInt 1), (YStr ''apiVersion'', YStr ''v1''),
                        (YStr ''kind'', YStr ''Pod''),
                        (YStr ''metadata'', YMap [(YStr ''name'', YStr ''agent-001'')]),
                        (YStr ''spec'', YMap [(YStr ''runtimeClassName'', YStr ''kata''),
                                              (YStr ''containers'', YSeq [])])]))
     ''extra: 1\<newline>apiVersion: v1\<newline>kind: Pod\<newline>metadata: {name: agent-001}\<newline>spec: {runtimeClassName: kata, containers: []}''
   = Inr (YMap [(YStr ''extra'', YInt 1), (YStr ''apiVersion'', YStr ''v1''),
                (YStr ''kind'', YStr ''Pod''),
                (YStr ''metadata'', YMap [(YStr ''name'', YStr ''agent-001'')]),
                (YStr ''spec'', YMap [(YStr ''runtimeClassName'', YStr ''kata''),
                                      (YStr ''containers'', YSeq [])])])"
  by (rule validate_yaml_accepts
      [where a = "YStr ''v1''" and m = "YMap [(YStr ''name'', YStr ''agent-001'')]"
         and spec = "[(YStr ''runtimeClassName'', YStr ''kata''), (YStr ''containers'', YSeq [])]"])
    simp_all

subsection \<open>\<^verbatim>\<open>save_rendered\<close>\<close>

text \<open>
  Claim C5. \<^verbatim>\<open>save_rendered\<close> writes only after \<^verbatim>\<open>render\<close> and \<^verbatim>\<open>validate_yaml\<close> have both
  succeeded. When \<^verbatim>\<open>render\<close> raises, or when the validation of the rendered text raises,
  the same error leaves \<^verbatim>\<open>save_rendered\<close> and the file system is as before. Otherwise
  (the destination not being a directory) the file at the destination holds exactly the
  rendered text, whatever it held before, and the destination path is returned.
\<close>

theorem save_rendered_writes_last:
  "(fst (render fs self variables) = Inl err \<longrightarrow>
      save_rendered safe_load fs self variables output_path =
        (Inl err, snd (render fs self variables), fs)) \<and>
   (fst (render fs self variables) = Inr rendered \<and>
    validate_yaml safe_load rendered = Inl err' \<longrightarrow>
      save_rendered safe_load fs self variables output_path =
        (Inl err', snd (render fs self variables), fs)) \<and>
   (fst (render fs self variables) = Inr rendered \<and>
    validate_yaml safe_load rendered = Inr parsed \<and> fs output_path \<noteq> Some Dir \<longrightarrow>
      save_rendered safe_load fs self variables output_path =
        (Inr output_path, snd (render fs self variables),
         fs(output_path \<mapsto> File rendered)))"
  by (cases "render fs self variables")
    (auto simp: save_rendered_def write_text_def split: sum.splits option.splits node.splits)

theorem save_rendered_writes_last_witness:
  "save_rendered example_safe_load example_files (engine_with ''name: {{POD_NAME}}'')
       example_variables ''out.yaml'' =
     (Inl (RenderingError {''POD_NAME''}), engine_with ''name: {{POD_NAME}}'', example_files) \<and>
   save_rendered example_safe_load example_files (engine_with ''kind: Service'')
       example_variables ''out.yaml'' =
     (Inl (ValidationError (Missing_required_field ''apiVersion'')),
      engine_with ''kind: Service'', example_files) \<and>
   save_rendered example_safe_load example_files (engine_with pod_template)
       example_variables ''out.yaml'' =
     (Inr ''out.yaml'', engine_with pod_template,
      example_files(''out.yaml'' \<mapsto> File rendered_pod))"
proof -
  have r1: "render example_files (engine_with ''name: {{POD_NAME}}'') example_variables =
      (Inl (RenderingError {''POD_NAME''}), engine_with ''name: {{POD_NAME}}'')"
    by code_simp
  have r2: "render example_files (engine_with ''kind: Service'') example_variables =
      (Inr ''kind: Service'', engine_with ''kind: Service'')"
    by code_simp
  have v2: "validate_yaml example_safe_load ''kind: Service'' =
      Inl (ValidationError (Missing_required_field ''apiVersion''))"
    by code_simp
  have r3: "render example_files (engine_with pod_template) example_variables =
      (Inr rendered_pod, engine_with pod_template)"
    by code_simp
  have v3: "validate_yaml example_safe_load rendered_pod = Inr example_pod"
    by code_simp
  have dest: "example_files ''out.yaml'' \<noteq> Some Dir"
    by (simp add: example_files_def)
  show ?thesis
    using save_rendered_writes_last
        [where fs = example_files and self = "engine_with ''name: {{POD_NAME}}''"
           and variables = example_variables and err = "RenderingError {''POD_NAME''}"
           and safe_load = example_safe_load and output_path = "''out.yaml''"]
      save_rendered_writes_last
        [where fs = example_files and self = "engine_with ''kind: Service''"
           and variables = example_variables and rendered = "''kind: Service''"
           and err' = "ValidationError (Missing_required_field ''apiVersion'')"
           and safe_load = example_safe_load and output_path = "''out.yaml''"]
      save_rendered_writes_last
        [where fs = example_files and self = "engine_with pod_template"
           and variables = example_variables and rendered = rendered_pod
           and parsed = example_pod
           and safe_load = example_safe_load and output_path = "''out.yaml''"]
    by (simp add: r1 r2 v2 r3 v3 dest)
qed

subsection \<open>Substitution on well-formed templates\<close>

lemma word_char_not_brace:
  "is_word_char c \<Longrightarrow> c \<noteq> CHR ''{'' \<and> c \<noteq> CHR ''}''"
  by (auto simp: is_word_char_def)

lemma word_name_no_brace:
  "word_name s \<Longrightarrow> CHR ''{'' \<notin> set s \<and> CHR ''}'' \<notin> set s"
  using word_char_not_brace by (auto simp: word_name_def list_all_iff)

lemma takeWhile_word_name:
  "word_name s \<Longrightarrow> takeWhile is_word_char (s @ CHR ''}'' # rest) = s"
proof -
  assume "word_name s"
  then have "\<forall>c \<in> set s. is_word_char c"
    by (simp add: word_name_def list_all_iff)
  moreover have "\<not> is_word_char CHR ''}''"
    using word_char_not_brace by blast
  ultimately show ?thesis
    by (simp add: takeWhile_append2)
qed

lemma dropWhile_word_name:
  "word_name s \<Longrightarrow> dropWhile is_word_char (s @ CHR ''}'' # rest) = CHR ''}'' # rest"
proof -
  assume "word_name s"
  then have "\<forall>c \<in> set s. is_word_char c"
    by (simp add: word_name_def list_all_iff)
  moreover have "\<not> is_word_char CHR ''}''"
    using word_char_not_brace by blast
  ultimately show ?thesis
    by (simp add: dropWhile_append2)
qed

text \<open>A token of the text is matched by the placeholder of its own name only.\<close>

lemma placeholder_prefix_token:
  assumes "word_name key" and "word_name name"
  shows "prefix (placeholder key) (placeholder name @ rest) \<longleftrightarrow> key = name"
proof
  assume "prefix (placeholder key) (placeholder name @ rest)"
  then obtain zs where "name @ CHR ''}'' # CHR ''}'' # rest = key @ CHR ''}'' # CHR ''}'' # zs"
    by (auto simp: placeholder_def prefix_def)
  then have "takeWhile is_word_char (name @ CHR ''}'' # CHR ''}'' # rest) =
      takeWhile is_word_char (key @ CHR ''}'' # CHR ''}'' # zs)"
    by simp
  with assms show "key = name"
    by (simp add: takeWhile_word_name)
next
  assume "key = name"
  then show "prefix (placeholder key) (placeholder name @ rest)"
    by simp
qed

lemma py_replace_skip:
  "CHR ''{'' \<notin> set u \<Longrightarrow>
     py_replace (u @ rest) (placeholder key) new = u @ py_replace rest (placeholder key) new"
  by (induction u) (auto simp: placeholder_def)

lemma py_replace_own_token:
  "py_replace (placeholder key @ rest) (placeholder key) new =
     new @ py_replace rest (placeholder key) new"
proof -
  obtain c cs where shape: "placeholder key @ rest = c # cs"
    by (simp add: placeholder_def)
  have "py_replace (c # cs) (placeholder key) new =
      new @ py_replace (drop (length (placeholder key)) (c # cs)) (placeholder key) new"
    using shape [symmetric] by (simp add: placeholder_def)
  then show ?thesis
    by (simp add: shape [symmetric])
qed

lemma py_replace_other_token:
  assumes "word_name key" and "word_name name" and "name \<noteq> []" and "name \<noteq> key"
  shows "py_replace (placeholder name @ rest) (placeholder key) new =
     placeholder name @ py_replace rest (placeholder key) new"
proof -
  let ?old = "placeholder key"
  let ?tail = "name @ CHR ''}'' # CHR ''}'' # rest"
  have whole: "placeholder name @ rest = CHR ''{'' # CHR ''{'' # ?tail"
    by (simp add: placeholder_def)
  have no_match: "\<not> prefix ?old (CHR ''{'' # CHR ''{'' # ?tail)"
    using placeholder_prefix_token [OF assms(1,2), of rest] assms(4) whole by auto
  have "hd name \<noteq> CHR ''{''"
    using assms(2,3) word_name_no_brace [of name] by (cases name) auto
  then have no_match': "\<not> prefix ?old (CHR ''{'' # ?tail)"
    using assms(3) by (cases name) (auto simp: placeholder_def)
  have "CHR ''{'' \<notin> set (name @ ''}}'')"
    using word_name_no_brace [OF assms(2)] by simp
  then have "py_replace ((name @ ''}}'') @ rest) ?old new =
      (name @ ''}}'') @ py_replace rest ?old new"
    by (rule py_replace_skip)
  then have tail: "py_replace ?tail ?old new = name @ ''}}'' @ py_replace rest ?old new"
    by simp
  have "?old \<noteq> []"
    by (simp add: placeholder_def)
  then have "py_replace (CHR ''{'' # CHR ''{'' # ?tail) ?old new =
      CHR ''{'' # CHR ''{'' # py_replace ?tail ?old new"
    using no_match no_match' by simp
  with tail show ?thesis
    by (simp add: whole) (simp add: placeholder_def)
qed

text \<open>
  One \<^verbatim>\<open>replace\<close> on a well-formed template turns the tokens of its key into the value
  and leaves every other piece as it is.
\<close>

lemma py_replace_template:
  "well_formed segs \<Longrightarrow> word_name key \<Longrightarrow>
     py_replace (template_of segs) (placeholder key) v =
       template_of (map (replace_token key v) segs)"
proof (induction segs)
  case Nil
  then show ?case
    by (simp add: template_of_def placeholder_def)
next
  case (Cons seg segs)
  then have rest: "py_replace (template_of segs) (placeholder key) v =
      template_of (map (replace_token key v) segs)"
    by (simp add: well_formed_def)
  show ?case
  proof (cases seg)
    case (Literal s)
    with Cons.prems have "CHR ''{'' \<notin> set s"
      by (simp add: well_formed_def no_open_brace_def)
    then have "py_replace (s @ template_of segs) (placeholder key) v =
        s @ py_replace (template_of segs) (placeholder key) v"
      by (rule py_replace_skip)
    with rest Literal show ?thesis
      by (simp add: template_of_def)
  next
    case (Token name)
    with Cons.prems have name: "name \<noteq> []" "word_name name"
      by (simp_all add: well_formed_def)
    show ?thesis
    proof (cases "name = key")
      case True
      with rest Token show ?thesis
        using py_replace_own_token [of key "template_of segs" v]
        by (simp add: template_of_def)
    next
      case False
      with rest Token show ?thesis
        using py_replace_other_token [OF Cons.prems(2) name(2,1) False, of "template_of segs" v]
        by (simp add: template_of_def)
    qed
  qed
qed

lemma well_formed_replace_token:
  "well_formed segs \<Longrightarrow> no_open_brace v \<Longrightarrow> well_formed (map (replace_token key v) segs)"
proof (induction segs)
  case Nil
  then show ?case by (simp add: well_formed_def)
next
  case (Cons seg segs)
  then show ?case
    by (cases seg) (simp_all add: well_formed_def)
qed

lemma filled_replace_token:
  "filled d (map (replace_token key v) segs) = filled ((key, v) # d) segs"
proof (induction segs)
  case Nil
  then show ?case by (simp add: filled_def)
next
  case (Cons seg segs)
  then show ?case
    by (cases seg) (simp_all add: filled_def)
qed

text \<open>
  The whole loop: on a well-formed template and a plain mapping the sequence of
  \<^verbatim>\<open>replace\<close> calls yields the template with every token filled in.
\<close>

lemma substitute_template:
  "well_formed segs \<Longrightarrow> plain_dict d \<Longrightarrow> substitute (template_of segs) d = filled d segs"
proof (induction d arbitrary: segs)
  case Nil
  have "filled [] segs = template_of segs"
  proof (induction segs)
    case Nil
    then show ?case by (simp add: filled_def template_of_def)
  next
    case (Cons seg segs)
    then show ?case by (cases seg) (simp_all add: filled_def template_of_def)
  qed
  then show ?case by simp
next
  case (Cons item d)
  obtain key v where item: "item = (key, v)"
    by (cases item)
  with Cons.prems have key: "word_name key" and v: "no_open_brace v" and d: "plain_dict d"
    by (simp_all add: plain_dict_def plain_item_def)
  have "substitute (template_of segs) (item # d) =
      substitute (template_of (map (replace_token key v) segs)) d"
    using py_replace_template [OF Cons.prems(1) key] item by simp
  also have "\<dots> = filled d (map (replace_token key v) segs)"
    using Cons.IH [OF well_formed_replace_token [OF Cons.prems(1) v] d] .
  also have "\<dots> = filled (item # d) segs"
    by (simp add: filled_replace_token item)
  finally show ?case .
qed

text \<open>What \<^verbatim>\<open>findall\<close> sees in such texts.\<close>

lemma findall_skip:
  "CHR ''{'' \<notin> set u \<Longrightarrow> findall (u @ rest) = findall rest"
  by (induction u) (auto simp: match_token_def)

lemma findall_no_open_brace:
  "no_open_brace s \<Longrightarrow> findall s = []"
  using findall_skip [of s "[]"] by (simp add: no_open_brace_def)

lemma match_token_placeholder:
  "name \<noteq> [] \<Longrightarrow> word_name name \<Longrightarrow> match_token (placeholder name @ rest) = Some (name, rest)"
  by (simp add: match_token_def placeholder_def takeWhile_word_name dropWhile_word_name)

lemma findall_token:
  "name \<noteq> [] \<Longrightarrow> word_name name \<Longrightarrow> findall (placeholder name @ rest) = name # findall rest"
proof -
  assume name: "name \<noteq> []" "word_name name"
  obtain c cs where shape: "placeholder name @ rest = c # cs"
    by (simp add: placeholder_def)
  have "findall (c # cs) = name # findall rest"
    using match_token_placeholder [OF name, of rest] shape by simp
  then show ?thesis
    by (simp add: shape)
qed

lemma findall_template:
  "well_formed segs \<Longrightarrow> findall (template_of segs) = token_names segs"
proof (induction segs rule: token_names.induct)
  case 1
  then show ?case by (simp add: template_of_def)
next
  case (2 s segs)
  then show ?case
    by (simp add: template_of_def well_formed_def no_open_brace_def findall_skip)
next
  case (3 name segs)
  then show ?case
    by (simp add: template_of_def well_formed_def findall_token)
qed

lemma no_open_brace_filled:
  "well_formed segs \<Longrightarrow> plain_dict d \<Longrightarrow> set (token_names segs) \<subseteq> set (map fst d) \<Longrightarrow>
     no_open_brace (filled d segs)"
proof (induction segs rule: token_names.induct)
  case 1
  then show ?case by (simp add: filled_def no_open_brace_def)
next
  case (2 s segs)
  then show ?case
    by (simp add: filled_def no_open_brace_def well_formed_def)
next
  case (3 name segs)
  from 3(4) obtain v where v: "map_of d name = Some v"
    by (cases "map_of d name") (auto simp: map_of_eq_None_iff)
  then have "(name, v) \<in> set d"
    by (rule map_of_SomeD)
  with 3(3) have "no_open_brace v"
    by (auto simp: plain_dict_def plain_item_def list_all_iff)
  with 3 v show ?case
    by (simp add: filled_def no_open_brace_def well_formed_def)
qed

lemma filled_cong:
  "map_of d = map_of d' \<Longrightarrow> filled d segs = filled d' segs"
proof (induction segs)
  case Nil
  then show ?case by (simp add: filled_def)
next
  case (Cons seg segs)
  then show ?case
    by (cases seg) (simp_all add: filled_def)
qed

text \<open>
  Claim C2, as amended. The claim says that a substituted value is never searched again and
  that the order of the keys therefore does not matter. The loop does search it again: each
  \<^verbatim>\<open>replace\<close> runs over the whole text so far, values included, and a value or a
  piece of template text with an opening brace can complete a token for a later key. What
  holds: for a well-formed template and a plain mapping (keys of word characters, no
  opening brace in a value), two orders of the same items give the same result, of the
  substitution loop and of the rendering.
\<close>

theorem render_template_order_independent:
  assumes "well_formed segs" and "plain_dict var_dict"
    and "distinct (map fst var_dict)" and "distinct (map fst var_dict')"
    and "set var_dict' = set var_dict"
  shows "substitute (template_of segs) var_dict' = substitute (template_of segs) var_dict \<and>
    render_template (template_of segs) var_dict' = render_template (template_of segs) var_dict"
proof -
  from assms(2,5) have plain': "plain_dict var_dict'"
    by (simp add: plain_dict_def list_all_iff)
  from assms(3-5) have "map_of var_dict' = map_of var_dict"
    by (simp add: map_of_inject_set)
  then have "filled var_dict' segs = filled var_dict segs"
    by (rule filled_cong)
  then have same: "substitute (template_of segs) var_dict' = substitute (template_of segs) var_dict"
    using assms(1,2) plain' by (simp add: substitute_template)
  from assms(5) have "set (map fst var_dict') = set (map fst var_dict)"
    by simp
  with same show ?thesis
    by (simp add: render_template_def Let_def)
qed

theorem render_template_order_independent_witness:
  "well_formed [Token ''A'', Literal '' and '', Token ''B''] \<and>
   plain_dict [(''A'', ''1''), (''B'', ''2'')] \<and>
   distinct (map fst [(''A'', ''1''), (''B'', ''2'')]) \<and>
   distinct (map fst [(''B'', ''2''), (''A'', ''1'')]) \<and>
   set [(''B'', ''2''), (''A'', ''1'')] = set [(''A'', ''1''), (''B'', ''2'')] \<and>
   render_template (template_of [Token ''A'', Literal '' and '', Token ''B''])
       [(''B'', ''2''), (''A'', ''1'')] =
     render_template (template_of [Token ''A'', Literal '' and '', Token ''B''])
       [(''A'', ''1''), (''B'', ''2'')]"
proof -
  let ?segs = "[Token ''A'', Literal '' and '', Token ''B'']"
  let ?d = "[(''A'', ''1''), (''B'', ''2'')]"
  let ?d' = "[(''B'', ''2''), (''A'', ''1'')]"
  have wf: "well_formed ?segs"
    by code_simp
  have plain: "plain_dict ?d"
    by code_simp
  have keys: "distinct (map fst ?d)" "distinct (map fst ?d')"
    by simp_all
  have items: "set ?d' = set ?d"
    by auto
  from render_template_order_independent [OF wf plain keys items] wf plain keys items
  show ?thesis
    by blast
qed

text \<open>
  The claim as it stands fails. With \<^verbatim>\<open>{{A}}\<close> as the template, the value of \<^verbatim>\<open>A\<close>
  is itself a token of \<^verbatim>\<open>B\<close>: processed after \<^verbatim>\<open>A\<close>, the key \<^verbatim>\<open>B\<close> replaces inside the
  substituted value; processed before, it does not. With \<^verbatim>\<open>{{X{{A}}Y}}\<close> the values have
  no brace, and the value of \<^verbatim>\<open>A\<close> completes a token of \<^verbatim>\<open>X_Y\<close> with the braces around
  it. With \<^verbatim>\<open>{{A}}{{B}}\<close> the template is well formed and the values have no brace, but
  the placeholder of the key \<^verbatim>\<open>A}}{{B\<close> spans both tokens. In each case the keys cover
  the placeholders of the template.
\<close>

theorem render_template_order_counterexample:
  "render_template ''{{A}}'' [(''A'', ''{{B}}''), (''B'', ''x'')] = Inr ''x'' \<and>
   render_template ''{{A}}'' [(''B'', ''x''), (''A'', ''{{B}}'')] = Inr ''{{B}}'' \<and>
   render_template ''{{X{{A}}Y}}'' [(''A'', ''_''), (''X_Y'', ''v'')] = Inr ''v'' \<and>
   render_template ''{{X{{A}}Y}}'' [(''X_Y'', ''v''), (''A'', ''_'')] = Inr ''{{X_Y}}'' \<and>
   render_template ''{{A}}{{B}}'' [(''A'', ''1''), (''B'', ''2''), (''A}}{{B'', ''3'')] = Inr ''12'' \<and>
   render_template ''{{A}}{{B}}'' [(''A}}{{B'', ''3''), (''A'', ''1''), (''B'', ''2'')] = Inr ''3''"
  by code_simp

text \<open>
  Claim C6, as amended. The claim promises, for every template with each recognised token
  once and every mapping that supplies them, a text without tokens in which each token
  has become its value. Since the loop searches substituted values again, that needs the
  template to be well formed and the mapping to be plain. Then, for any number of
  occurrences of each token, \<^verbatim>\<open>render\<close> succeeds when the mapping has a key for every
  token, the text is the template with each token replaced by the value of its name and
  every literal piece unchanged, and \<^verbatim>\<open>findall\<close> finds no token in it.
\<close>

theorem render_template_fills_tokens:
  assumes "well_formed segs" and "plain_dict var_dict"
    and "set (token_names segs) \<subseteq> set (map fst var_dict)"
  shows "render_template (template_of segs) var_dict = Inr (filled var_dict segs) \<and>
    findall (filled var_dict segs) = []"
proof -
  from assms(1,3) have "set (findall (template_of segs)) - set (map fst var_dict) = {}"
    by (simp add: findall_template)
  then have "render_template (template_of segs) var_dict =
      Inr (substitute (template_of segs) var_dict)"
    by (simp add: render_template_def)
  moreover have "findall (filled var_dict segs) = []"
    using no_open_brace_filled [OF assms] by (rule findall_no_open_brace)
  ultimately show ?thesis
    using assms(1,2) by (simp add: substitute_template)
qed

theorem render_template_fills_tokens_witness:
  "well_formed example_segments \<and>
   plain_dict (to_dict example_variables) \<and>
   set (token_names example_segments) \<subseteq> set (map fst (to_dict example_variables)) \<and>
   render_template (template_of example_segments) (to_dict example_variables) =
     Inr ''name: agent-001\<newline>namespace: default\<newline>image: godel/agent:latest\<newline>cpu: 500m\<newline>memory: 512Mi\<newline>env: []\<newline>volumeMounts: []\<newline>volumes: []''"
proof -
  have wf: "well_formed example_segments"
    by code_simp
  have plain: "plain_dict (to_dict example_variables)"
    by code_simp
  have names: "set (token_names example_segments) \<subseteq> set (map fst (to_dict example_variables))"
    by code_simp
  have "filled (to_dict example_variables) example_segments =
      ''name: agent-001\<newline>namespace: default\<newline>image: godel/agent:latest\<newline>cpu: 500m\<newline>memory: 512Mi\<newline>env: []\<newline>volumeMounts: []\<newline>volumes: []''"
    by code_simp
  with render_template_fills_tokens [OF wf plain names] wf plain names show ?thesis
    by simp
qed

lemma example_template_text:
  "template_of example_segments =
     ''name: {{AGENT_ID}}\<newline>namespace: {{NAMESPACE}}\<newline>image: {{IMAGE}}\<newline>cpu: {{CPU_LIMIT}}\<newline>memory: {{MEMORY_LIMIT}}\<newline>env:{{ENV_VARS}}\<newline>volumeMounts:{{VOLUME_MOUNTS}}\<newline>volumes:{{VOLUMES}}''"
  by (simp add: template_of_def example_segments_def placeholder_def)

text \<open>
  The claim as it stands fails, on templates with each token exactly once. In the first,
  the value of \<^verbatim>\<open>VOLUMES\<close> is a token of \<^verbatim>\<open>AGENT_ID\<close>, which is processed earlier: the
  token stays in the output. In the second, the value of \<^verbatim>\<open>AGENT_ID\<close> is a token of
  \<^verbatim>\<open>VOLUMES\<close>, which is processed later: the token \<^verbatim>\<open>{{AGENT_ID}}\<close> ends up as the
  value of \<^verbatim>\<open>VOLUMES\<close>. In the third, all values are free of braces, and the value of
  \<^verbatim>\<open>NAMESPACE\<close> completes a token with the braces of the template around it.
\<close>

theorem render_fills_tokens_counterexample:
  "fst (render Map.empty (engine_with (template_of example_segments))
          (example_variables\<lparr>VOLUMES := ''{{AGENT_ID}}''\<rparr>)) =
     Inr ''name: agent-001\<newline>namespace: default\<newline>image: godel/agent:latest\<newline>cpu: 500m\<newline>memory: 512Mi\<newline>env: []\<newline>volumeMounts: []\<newline>volumes:{{AGENT_ID}}'' \<and>
   fst (render Map.empty (engine_with (template_of example_segments))
          (example_variables\<lparr>AGENT_ID := ''{{VOLUMES}}''\<rparr>)) =
     Inr ''name:  []\<newline>namespace: default\<newline>image: godel/agent:latest\<newline>cpu: 500m\<newline>memory: 512Mi\<newline>env: []\<newline>volumeMounts: []\<newline>volumes: []'' \<and>
   findall ''{{AGENT_ID}} {{AGENT{{NAMESPACE}}ID}} {{IMAGE}} {{CPU_LIMIT}} {{MEMORY_LIMIT}} {{ENV_VARS}} {{VOLUME_MOUNTS}} {{VOLUMES}}'' =
     [''AGENT_ID'', ''NAMESPACE'', ''IMAGE'', ''CPU_LIMIT'', ''MEMORY_LIMIT'', ''ENV_VARS'',
      ''VOLUME_MOUNTS'', ''VOLUMES''] \<and>
   fst (render Map.empty
          (engine_with ''{{AGENT_ID}} {{AGENT{{NAMESPACE}}ID}} {{IMAGE}} {{CPU_LIMIT}} {{MEMORY_LIMIT}} {{ENV_VARS}} {{VOLUME_MOUNTS}} {{VOLUMES}}'')
          (example_variables\<lparr>NAMESPACE := ''_''\<rparr>)) =
     Inr ''agent-001 {{AGENT_ID}} godel/agent:latest 500m 512Mi  []  []  []''"
  by code_simp

subsection \<open>The formatting helpers\<close>

lemma env_var_lines_eq:
  \<open>env_var_lines items lines =
     lines @ concat (map (\<lambda>(key, value).
       [[], ''    - name: '' @ key, ''      value: "'' @ value @ ''"'']) items)\<close>
  by (induction items lines rule: env_var_lines.induct) simp_all

lemma volume_mount_lines_eq:
  "volume_mount_lines items lines =
     lines @ concat (map (\<lambda>(name, mount_path).
       [[], ''    - name: '' @ name, ''      mountPath: '' @ mount_path]) items)"
  by (induction items lines rule: volume_mount_lines.induct) simp_all

lemma nested_lines_eq:
  "nested_lines items lines = lines @ map (\<lambda>(k, v). ''      '' @ k @ '': '' @ v) items"
  by (induction items lines rule: nested_lines.induct) simp_all

lemma config_lines_eq:
  "config_lines items lines = lines @ concat (map property_lines items)"
proof (induction items lines rule: config_lines.induct)
  case (1 lines)
  then show ?case by simp
next
  case (2 key v items lines)
  then show ?case
    by (cases v) (simp_all add: nested_lines_eq)
qed

lemma volume_lines_eq:
  "volume_lines items lines =
     lines @ concat (map (\<lambda>(name, config).
       [[], ''  - name: '' @ name] @ concat (map property_lines config)) items)"
  by (induction items lines rule: volume_lines.induct) (simp_all add: config_lines_eq)

text \<open>
  Claim C8. Each helper returns the text \<^verbatim>\<open> []\<close> (a space and the empty list) for an
  empty mapping. For a non-empty mapping the text is the lines, joined by newlines, that
  consist for each entry, in the order of the mapping, of an empty line followed by the
  lines of that entry's list item.
\<close>

theorem format_helpers_layout:
  \<open>format_env_vars [] = '' []'' \<and> format_volume_mounts [] = '' []'' \<and>
   format_volumes [] = '' []'' \<and>
   (env_dict \<noteq> [] \<longrightarrow>
      format_env_vars env_dict =
        join ''\<newline>'' (concat (map (\<lambda>(key, value).
          [[], ''    - name: '' @ key, ''      value: "'' @ value @ ''"'']) env_dict))) \<and>
   (mounts \<noteq> [] \<longrightarrow>
      format_volume_mounts mounts =
        join ''\<newline>'' (concat (map (\<lambda>(name, mount_path).
          [[], ''    - name: '' @ name, ''      mountPath: '' @ mount_path]) mounts))) \<and>
   (volumes \<noteq> [] \<longrightarrow>
      format_volumes volumes =
        join ''\<newline>'' (concat (map (\<lambda>(name, config).
          [[], ''  - name: '' @ name] @ concat (map property_lines config)) volumes)))\<close>
  by (simp add: format_env_vars_def format_volume_mounts_def format_volumes_def
      env_var_lines_eq volume_mount_lines_eq volume_lines_eq)

theorem format_helpers_layout_witness:
  \<open>[(''A'', ''1''), (''B'', ''2'')] \<noteq> [] \<and>
   format_env_vars [(''A'', ''1''), (''B'', ''2'')] =
     ''\<newline>    - name: A\<newline>      value: "1"\<newline>\<newline>    - name: B\<newline>      value: "2"'' \<and>
   [(''agent-config'', ''/etc/godel''), (''agent-data'', ''/var/lib/godel'')] \<noteq> [] \<and>
   format_volume_mounts [(''agent-config'', ''/etc/godel''), (''agent-data'', ''/var/lib/godel'')] =
     ''\<newline>    - name: agent-config\<newline>      mountPath: /etc/godel\<newline>\<newline>    - name: agent-data\<newline>      mountPath: /var/lib/godel'' \<and>
   [(''agent-config'', [(''configMap'', Nested [(''name'', ''godel-agent-config'')])]),
    (''agent-data'', [(''emptyDir'', Nested [])])] \<noteq> [] \<and>
   format_volumes
     [(''agent-config'', [(''configMap'', Nested [(''name'', ''godel-agent-config'')])]),
      (''agent-data'', [(''emptyDir'', Nested [])])] =
     ''\<newline>  - name: agent-config\<newline>    configMap:\<newline>      name: godel-agent-config\<newline>\<newline>  - name: agent-data\<newline>    emptyDir:''\<close>
  using format_helpers_layout
    [of "[(''A'', ''1''), (''B'', ''2'')]"
        "[(''agent-config'', ''/etc/godel''), (''agent-data'', ''/var/lib/godel'')]"
        "[(''agent-config'', [(''configMap'', Nested [(''name'', ''godel-agent-config'')])]),
          (''agent-data'', [(''emptyDir'', Nested [])])]"]
  by simp

end
